theory Spec2Isabelle
  imports Complex_Main "HOL-Library.Multiset" "HOL-Library.AList"
begin

section \<open>The BM25 retriever of camel/retrievers/bm25_retriever.py\<close>

text \<open>
  The class \<open>BM25Retriever\<close> has three fields (\<open>bm25\<close>, \<open>content_input_path\<close>,
  \<open>chunks\<close>) and two methods, \<open>process\<close> and \<open>query\<close>. Both methods mutate or read
  the object, so the model passes the object explicitly and \<open>process\<close> returns the
  updated object together with its outcome. Exceptions are values of the type \<open>error\<close>.

  Three collaborators are imported by the source and are not part of it:
  \<^item> \<open>UnstructuredIO\<close> (document loading and chunking) is a parameter of \<open>process\<close>;
  \<^item> \<open>rank_bm25.BM25Okapi\<close> is written out below as the library computes it, with
    Python's floats idealised as real numbers;
  \<^item> \<open>numpy.argpartition\<close> is modelled by its bounds check and its documented
    postcondition; the order inside the two partitions, which numpy leaves undefined,
    is an explicit argument.
\<close>

subsection \<open>Errors\<close>

datatype error =
    ValueError string
  | ZeroDivisionError
  | IndexError
  | LoaderError string

subsection \<open>Python's \<open>str.split(sep)\<close> with a one-character separator\<close>

text \<open>
  \<open>s.split(" ")\<close> cuts at every single occurrence of the separator: the result has one
  more element than \<open>s\<close> has separators, and two adjacent separators give an empty
  token. It is not \<open>s.split()\<close>, which cuts at runs of any whitespace.
\<close>

fun str_split :: "char \<Rightarrow> string \<Rightarrow> string list" where
  "str_split sep [] = [[]]"
| "str_split sep (c # cs) =
     (let r = str_split sep cs
      in if c = sep then [] # r else (c # hd r) # tl r)"

text \<open>Python's \<open>sep.join(tokens)\<close>.\<close>

fun str_join :: "char \<Rightarrow> string list \<Rightarrow> string" where
  "str_join sep [] = []"
| "str_join sep [t] = t"
| "str_join sep (t # u # ts) = t @ sep # str_join sep (u # ts)"

text \<open>The characters for which Python's \<open>str.isspace\<close> holds, among the ASCII ones.\<close>

definition isspace :: "char \<Rightarrow> bool" where
  "isspace c \<longleftrightarrow> c \<in> set [CHR 0x20, CHR 0x09, CHR 0x0A, CHR 0x0B, CHR 0x0C, CHR 0x0D,
                           CHR 0x1C, CHR 0x1D, CHR 0x1E, CHR 0x1F]"

subsection \<open>Chunks and the document loader\<close>

text \<open>
  A chunk is an element object of the loader; the retriever reads \<open>str(chunk)\<close> and
  \<open>chunk.metadata.to_dict()\<close> and nothing else.
\<close>

record 'md chunk =
  chunk_str :: string
  chunk_metadata :: 'md

type_synonym kwargs = "(string \<times> string) list"

record ('e, 'md) UnstructuredIO =
  parse_file_or_url :: "string \<Rightarrow> kwargs \<Rightarrow> error + 'e list"
  chunk_elements :: "string \<Rightarrow> 'e list \<Rightarrow> error + 'md chunk list"

subsection \<open>\<open>rank_bm25.BM25Okapi\<close>\<close>

text \<open>
  The library class keeps, per document, a dictionary of term frequencies and the
  document length, and globally the corpus size, the average document length and the
  table of inverse document frequencies. Dictionaries are association lists in
  insertion order (\<open>AList.update\<close> overwrites in place or appends), looked up with
  \<open>map_of\<close>.
\<close>

record bm25okapi =
  corpus_size :: nat
  avgdl :: real
  doc_freqs :: "(string \<times> nat) list list"
  idf :: "(string \<times> real) list"
  doc_len :: "nat list"

definition bm25_k1 :: real where "bm25_k1 = 3 / 2"
definition bm25_b :: real where "bm25_b = 3 / 4"
definition bm25_epsilon :: real where "bm25_epsilon = 1 / 4"

text \<open>\<open>d[word] = d.get(word, 0) + 1\<close>\<close>

definition bump :: "string \<Rightarrow> (string \<times> nat) list \<Rightarrow> (string \<times> nat) list" where
  "bump word d = AList.update word (case map_of d word of None \<Rightarrow> 1 | Some n \<Rightarrow> n + 1) d"

definition frequencies :: "string list \<Rightarrow> (string \<times> nat) list" where
  "frequencies document = fold bump document []"

text \<open>\<open>nd\<close>: for every word, the number of documents that contain it.\<close>

definition nd_of :: "string list list \<Rightarrow> (string \<times> nat) list" where
  "nd_of corpus = fold (\<lambda>document nd. fold bump (map fst (frequencies document)) nd) corpus []"

definition raw_idf :: "nat \<Rightarrow> nat \<Rightarrow> real" where
  "raw_idf n freq = ln (real n - real freq + 1 / 2) - ln (real freq + 1 / 2)"

text \<open>
  \<open>_calc_idf\<close>: negative values are replaced by \<open>epsilon * average_idf\<close>; the average
  divides by the number of words, which raises when there is none.
\<close>

definition calc_idf :: "nat \<Rightarrow> (string \<times> nat) list \<Rightarrow> error + (string \<times> real) list" where
  "calc_idf n nd =
     (let raw = map (\<lambda>(word, freq). (word, raw_idf n freq)) nd;
          idf_sum = sum_list (map snd raw)
      in if raw = [] then Inl ZeroDivisionError
         else
           let average_idf = idf_sum / real (length raw);
               eps = bm25_epsilon * average_idf
           in Inr (map (\<lambda>(word, v). (word, if v < 0 then eps else v)) raw))"

text \<open>
  The constructor: \<open>_initialize\<close> divides the total length by the corpus size, which
  raises \<open>ZeroDivisionError\<close> on an empty corpus, and then calls \<open>_calc_idf\<close>.
\<close>

definition BM25Okapi :: "string list list \<Rightarrow> error + bm25okapi" where
  "BM25Okapi corpus =
     (if corpus = [] then Inl ZeroDivisionError
      else
        case calc_idf (length corpus) (nd_of corpus) of
          Inl e \<Rightarrow> Inl e
        | Inr table \<Rightarrow>
            Inr \<lparr>corpus_size = length corpus,
                 avgdl = real (sum_list (map length corpus)) / real (length corpus),
                 doc_freqs = map frequencies corpus,
                 idf = table,
                 doc_len = map length corpus\<rparr>)"

text \<open>\<open>d.get(q) or 0\<close>\<close>

definition get_or_0 :: "(string \<times> 'a::zero) list \<Rightarrow> string \<Rightarrow> 'a" where
  "get_or_0 d q = (case map_of d q of None \<Rightarrow> 0 | Some v \<Rightarrow> v)"

text \<open>The contribution of one query term to the score of every document.\<close>

definition term_scores :: "bm25okapi \<Rightarrow> string \<Rightarrow> real list" where
  "term_scores m q =
     map2 (\<lambda>doc dl.
            let q_freq = real (get_or_0 doc q)
            in get_or_0 (idf m) q *
               (q_freq * (bm25_k1 + 1) /
                (q_freq + bm25_k1 * (1 - bm25_b + bm25_b * real dl / avgdl m))))
          (doc_freqs m) (doc_len m)"

text \<open>\<open>get_scores\<close>: starts from \<open>np.zeros(corpus_size)\<close> and adds, term by term.\<close>

definition get_scores :: "bm25okapi \<Rightarrow> string list \<Rightarrow> real list" where
  "get_scores m terms =
     fold (\<lambda>q score. map2 (+) score (term_scores m q)) terms (replicate (corpus_size m) 0)"

subsection \<open>\<open>numpy.argpartition\<close>\<close>

text \<open>
  \<open>np.argpartition(a, kth)\<close> raises \<open>ValueError\<close> when \<open>kth\<close> is outside
  \<open>[-len(a), len(a))\<close>. Otherwise it returns a permutation \<open>p\<close> of the indices such that
  the element at position \<open>k\<close> is in its sorted place: nothing before it is larger and
  nothing after it is smaller. Which permutation is left undefined by numpy, so the
  permutation is the argument \<open>p\<close> and \<open>partitioned\<close> says that it is a possible answer.
  numpy's message, \<open>kth(=k) out of bounds (n)\<close>, is shortened to its constant part.
\<close>

definition partitioned :: "real list \<Rightarrow> nat \<Rightarrow> nat list \<Rightarrow> bool" where
  "partitioned a k p \<longleftrightarrow>
     sort p = [0..<length a] \<and>
     list_all (\<lambda>i. a ! (p ! i) \<le> a ! (p ! k)) [0..<k] \<and>
     list_all (\<lambda>i. a ! (p ! k) \<le> a ! (p ! i)) [Suc k..<length a]"

definition argpartition :: "nat list \<Rightarrow> real list \<Rightarrow> int \<Rightarrow> error + nat list" where
  "argpartition p a kth =
     (let n = int (length a)
      in if kth < - n \<or> n \<le> kth then Inl (ValueError ''kth out of bounds'') else Inr p)"

text \<open>The position that a valid \<open>kth\<close> denotes (negative values count from the end).\<close>

definition kth_pos :: "nat \<Rightarrow> int \<Rightarrow> nat" where
  "kth_pos n kth = nat (if kth < 0 then kth + int n else kth)"

subsection \<open>The retriever object\<close>

record 'md retriever =
  bm25 :: "bm25okapi option"
  content_input_path :: string
  chunks :: "'md chunk list"

text \<open>
  \<open>__init__\<close>. The \<open>ImportError\<close> it raises when the package \<open>rank_bm25\<close> is not
  installed is a matter of the installation and is left out.
\<close>

definition init :: "'md retriever" where
  "init = \<lparr>bm25 = None, content_input_path = [], chunks = []\<rparr>"

subsection \<open>\<open>process\<close>\<close>

text \<open>Line 82: \<open>[str(chunk).split(" ") for chunk in self.chunks]\<close>\<close>

definition tokenized_corpus :: "'md chunk list \<Rightarrow> string list list" where
  "tokenized_corpus cs = map (\<lambda>chunk. str_split CHR '' '' (chunk_str chunk)) cs"

text \<open>
  The assignments happen in the order of the source: the path first (line 74), the
  chunks once the loader has returned them (line 78), the index last (line 83). An
  exception leaves the assignments made before it in place.
\<close>

text \<open>
  Lines 75-79: the two calls to the loader. Either may raise; no field is assigned
  between them.
\<close>

definition load_chunks ::
  "('e, 'md) UnstructuredIO \<Rightarrow> string \<Rightarrow> string \<Rightarrow> kwargs \<Rightarrow> error + 'md chunk list" where
  "load_chunks io path chunk_type kw =
     (case parse_file_or_url io path kw of
        Inl e \<Rightarrow> Inl e
      | Inr elements \<Rightarrow> chunk_elements io chunk_type elements)"

definition process ::
  "('e, 'md) UnstructuredIO \<Rightarrow> 'md retriever \<Rightarrow> string \<Rightarrow> string \<Rightarrow> kwargs
     \<Rightarrow> (error + unit) \<times> 'md retriever" where
  "process io self path chunk_type kw =
     (let self1 = self\<lparr>content_input_path := path\<rparr>
      in case load_chunks io path chunk_type kw of
           Inl e \<Rightarrow> (Inl e, self1)
         | Inr cs \<Rightarrow>
             (let self2 = self1\<lparr>chunks := cs\<rparr>
              in (case BM25Okapi (tokenized_corpus cs) of
                    Inl e \<Rightarrow> (Inl e, self2)
                  | Inr m \<Rightarrow> (Inr (), self2\<lparr>bm25 := Some m\<rparr>))))"

subsection \<open>\<open>query\<close>\<close>

text \<open>The values of a result dictionary.\<close>

datatype 'md pyval = Float real | Str string | Dict 'md

type_synonym 'md result = "(string \<times> 'md pyval) list"

text \<open>Lines 129-134: the dictionary built for the chunk with index \<open>i\<close>.\<close>

definition result_dict :: "real list \<Rightarrow> string \<Rightarrow> 'md chunk list \<Rightarrow> nat \<Rightarrow> 'md result" where
  "result_dict scores path cs i =
     [(''similarity score'', Float (scores ! i)),
      (''content path'', Str path),
      (''metadata'', Dict (chunk_metadata (cs ! i))),
      (''text'', Str (chunk_str (cs ! i)))]"

text \<open>
  Lines 128-135: the loop over the selected indices. Reading \<open>scores[i]\<close> or
  \<open>self.chunks[i]\<close> out of range raises \<open>IndexError\<close>.
\<close>

fun format_results ::
  "real list \<Rightarrow> string \<Rightarrow> 'md chunk list \<Rightarrow> nat list \<Rightarrow> error + 'md result list" where
  "format_results scores path cs [] = Inr []"
| "format_results scores path cs (i # idx) =
     (if i < length scores \<and> i < length cs
      then case format_results scores path cs idx of
             Inl e \<Rightarrow> Inl e
           | Inr rs \<Rightarrow> Inr (result_dict scores path cs i # rs)
      else Inl IndexError)"

text \<open>The sort key \<open>x['similarity score']\<close>; every result dictionary has that key.\<close>

definition similarity_score :: "'md result \<Rightarrow> real" where
  "similarity_score x = (case map_of x ''similarity score'' of Some (Float s) \<Rightarrow> s | _ \<Rightarrow> 0)"

text \<open>
  \<open>list.sort(key=..., reverse=True)\<close>: Python reverses the list, sorts it stably in
  ascending order and reverses it again, so elements with equal keys keep their order.
\<close>

definition sort_reverse :: "('a \<Rightarrow> real) \<Rightarrow> 'a list \<Rightarrow> 'a list" where
  "sort_reverse key xs = rev (sort_key key (rev xs))"

text \<open>Line 121: \<open>query.split(" ")\<close>\<close>

definition processed_query :: "string \<Rightarrow> string list" where
  "processed_query q = str_split CHR '' '' q"

definition query ::
  "nat list \<Rightarrow> 'md retriever \<Rightarrow> string \<Rightarrow> int \<Rightarrow> error + 'md result list" where
  "query p self q top_k =
     (if top_k \<le> 0 then Inl (ValueError ''top_k must be a positive integer.'')
      else
        (case bm25 self of
           None \<Rightarrow>
             Inl (ValueError ''BM25 model is not initialized. Call `process_and_store` first.'')
         | Some m \<Rightarrow>
             (let scores = get_scores m (processed_query q)
              in (case argpartition p scores (- top_k) of
                    Inl e \<Rightarrow> Inl e
                  | Inr part \<Rightarrow>
                      (let top_k_indices = drop (length part - nat top_k) part
                       in (case format_results scores (content_input_path self) (chunks self)
                                  top_k_indices of
                             Inl e \<Rightarrow> Inl e
                           | Inr formatted_results \<Rightarrow>
                               Inr (sort_reverse similarity_score formatted_results)))))))"

subsection \<open>Notions used in the statements\<close>

text \<open>Lines 121-123: the score array that \<open>query\<close> computes from the index, if there is one.\<close>

definition scores_of :: "'md retriever \<Rightarrow> string \<Rightarrow> real list" where
  "scores_of self q =
     (case bm25 self of None \<Rightarrow> [] | Some m \<Rightarrow> get_scores m (processed_query q))"

text \<open>The index has one entry per document in each of its per-document tables.\<close>

definition well_formed :: "bm25okapi \<Rightarrow> bool" where
  "well_formed m \<longleftrightarrow>
     length (doc_freqs m) = corpus_size m \<and> length (doc_len m) = corpus_size m"

text \<open>The object holds an index, and it is the index of the chunks the object holds.\<close>

definition built_from_chunks :: "'md retriever \<Rightarrow> bool" where
  "built_from_chunks self \<longleftrightarrow>
     (case bm25 self of
        None \<Rightarrow> False
      | Some m \<Rightarrow> BM25Okapi (tokenized_corpus (chunks self)) = Inr m)"

text \<open>
  The order that the specification asks of the returned documents (section 4.4):
  descending by score, equal scores in ascending order of the document id.
\<close>

definition spec_ranked :: "real list \<Rightarrow> nat list \<Rightarrow> bool" where
  "spec_ranked scores idx \<longleftrightarrow>
     sorted_wrt (\<lambda>i j. scores ! j < scores ! i \<or> (scores ! i = scores ! j \<and> i < j)) idx"

subsection \<open>Example inputs\<close>

text \<open>A loader that returns the given chunks, and one whose fetch fails.\<close>

definition loader_of :: "'md chunk list \<Rightarrow> (unit, 'md) UnstructuredIO" where
  "loader_of cs =
     \<lparr>parse_file_or_url = (\<lambda>path kw. Inr [()]),
      chunk_elements = (\<lambda>chunk_type elements. Inr cs)\<rparr>"

definition failing_loader :: "(unit, 'md) UnstructuredIO" where
  "failing_loader =
     \<lparr>parse_file_or_url = (\<lambda>path kw. Inl (LoaderError ''cannot fetch'')),
      chunk_elements = (\<lambda>chunk_type elements. Inr [])\<rparr>"

text \<open>Chunks whose metadata is their position in the corpus.\<close>

definition numbered :: "string list \<Rightarrow> nat chunk list" where
  "numbered texts =
     map (\<lambda>(i, t). \<lparr>chunk_str = t, chunk_metadata = i\<rparr>) (enumerate 0 texts)"

definition pets :: "nat chunk list" where
  "pets = numbered [''the cat sat'', ''the dog ran'', ''cats and dogs'']"

definition letters :: "nat chunk list" where
  "letters = numbered [''a'', ''a'', ''b'', ''c'', ''d'']"


text \<open>The index of \<open>pets\<close>; the word \<open>the\<close> is in two documents of three, so its value is
  the floor \<open>epsilon * average_idf\<close>.\<close>

definition pets_eps :: real where
  "pets_eps = bm25_epsilon * ((raw_idf 3 2 + 7 * raw_idf 3 1) / 8)"

definition pets_index :: bm25okapi where
  "pets_index =
     \<lparr>corpus_size = 3, avgdl = 3,
      doc_freqs = [[(''the'', 1), (''cat'', 1), (''sat'', 1)],
                   [(''the'', 1), (''dog'', 1), (''ran'', 1)],
                   [(''cats'', 1), (''and'', 1), (''dogs'', 1)]],
      idf = [(''the'', pets_eps), (''cat'', raw_idf 3 1), (''sat'', raw_idf 3 1),
             (''dog'', raw_idf 3 1), (''ran'', raw_idf 3 1), (''cats'', raw_idf 3 1),
             (''and'', raw_idf 3 1), (''dogs'', raw_idf 3 1)],
      doc_len = [3, 3, 3]\<rparr>"
text \<open>The index of \<open>letters\<close>.\<close>

definition letters_index :: bm25okapi where
  "letters_index =
     \<lparr>corpus_size = 5, avgdl = 1,
      doc_freqs = [[(''a'', 1)], [(''a'', 1)], [(''b'', 1)], [(''c'', 1)], [(''d'', 1)]],
      idf = [(''a'', raw_idf 5 2), (''b'', raw_idf 5 1), (''c'', raw_idf 5 1),
             (''d'', raw_idf 5 1)],
      doc_len = [1, 1, 1, 1, 1]\<rparr>"

section \<open>Properties of the building blocks\<close>

subsection \<open>Splitting and joining\<close>

lemma str_split_not_Nil: "str_split sep s \<noteq> []"
  by (induction s) (auto simp: Let_def)

lemma length_str_split: "length (str_split sep s) = Suc (count_list s sep)"
  by (induction s) (auto simp: Let_def str_split_not_Nil)

lemma str_join_Cons: "ts \<noteq> [] \<Longrightarrow> str_join sep (t # ts) = t @ sep # str_join sep ts"
  by (cases ts) auto

lemma str_join_hd_tl: "ts \<noteq> [] \<Longrightarrow> str_join sep ((c # hd ts) # tl ts) = c # str_join sep ts"
  by (cases ts; cases "tl ts") auto

lemma str_join_str_split: "str_join sep (str_split sep s) = s"
  by (induction s) (auto simp: Let_def str_split_not_Nil str_join_Cons str_join_hd_tl)

lemma sep_notin_str_split: "t \<in> set (str_split sep s) \<Longrightarrow> sep \<notin> set t"
proof (induction s arbitrary: t)
  case Nil
  then show ?case by simp
next
  case (Cons c cs)
  show ?case
  proof (cases "c = sep")
    case True
    with Cons show ?thesis by (auto simp: Let_def)
  next
    case False
    obtain u us where r: "str_split sep cs = u # us"
      using str_split_not_Nil [of sep cs] by (cases "str_split sep cs") auto
    with Cons False show ?thesis by (auto simp: Let_def)
  qed
qed


subsection \<open>The index\<close>

lemma bump_not_Nil: "bump w d \<noteq> []"
  by (cases d) (auto simp: bump_def)

lemma fold_bump_not_Nil: "ws \<noteq> [] \<or> d \<noteq> [] \<Longrightarrow> fold bump ws d \<noteq> []"
  by (induction ws arbitrary: d) (auto simp: bump_not_Nil)

lemma map_of_bump: "map_of (bump w d) = (map_of d)(w \<mapsto> (case map_of d w of None \<Rightarrow> 1 | Some n \<Rightarrow> n + 1))"
  by (simp add: bump_def update_conv')

lemma dom_fold_bump: "dom (map_of (fold bump ws d)) = set ws \<union> dom (map_of d)"
  by (induction ws arbitrary: d) (auto simp: map_of_bump)

lemma frequencies_None: "q \<notin> set document \<Longrightarrow> map_of (frequencies document) q = None"
  using dom_fold_bump [of document "[]"] by (auto simp: frequencies_def)

lemma frequencies_not_Nil: "document \<noteq> [] \<Longrightarrow> frequencies document \<noteq> []"
  by (simp add: frequencies_def fold_bump_not_Nil)

lemma nd_of_not_Nil:
  assumes "corpus \<noteq> []" and "[] \<notin> set corpus"
  shows "nd_of corpus \<noteq> []"
proof -
  have step: "fold (\<lambda>document nd. fold bump (map fst (frequencies document)) nd) c d \<noteq> []"
    if "[] \<notin> set c" and "c \<noteq> [] \<or> d \<noteq> []" for c d
    using that
  proof (induction c arbitrary: d)
    case Nil
    then show ?case by simp
  next
    case (Cons x xs)
    have "frequencies x \<noteq> []" using Cons.prems by (auto simp: frequencies_not_Nil)
    then have "fold bump (map fst (frequencies x)) d \<noteq> []"
      by (intro fold_bump_not_Nil) simp
    with Cons show ?case by simp
  qed
  from step [of corpus "[]"] assms show ?thesis by (simp add: nd_of_def)
qed

lemma BM25Okapi_succeeds:
  assumes "corpus \<noteq> []" and "[] \<notin> set corpus"
  shows "\<exists>m. BM25Okapi corpus = Inr m"
  using assms nd_of_not_Nil [OF assms]
  by (auto simp: BM25Okapi_def calc_idf_def Let_def)

lemma BM25Okapi_fields:
  assumes "BM25Okapi corpus = Inr m"
  shows "corpus_size m = length corpus" and "doc_freqs m = map frequencies corpus"
    and "doc_len m = map length corpus"
  using assms by (auto simp: BM25Okapi_def split: if_splits sum.splits)

lemma BM25Okapi_Nil: "BM25Okapi [] = Inl ZeroDivisionError"
  by (simp add: BM25Okapi_def)

lemma BM25Okapi_well_formed: "BM25Okapi corpus = Inr m \<Longrightarrow> well_formed m"
  by (simp add: well_formed_def BM25Okapi_fields)

lemma length_term_scores: "well_formed m \<Longrightarrow> length (term_scores m q) = corpus_size m"
  by (simp add: term_scores_def well_formed_def)

lemma length_fold_scores:
  "well_formed m \<Longrightarrow> length acc = corpus_size m \<Longrightarrow>
   length (fold (\<lambda>q score. map2 (+) score (term_scores m q)) ts acc) = corpus_size m"
  by (induction ts arbitrary: acc) (auto simp: length_term_scores)

lemma length_get_scores: "well_formed m \<Longrightarrow> length (get_scores m ts) = corpus_size m"
  by (simp add: get_scores_def length_fold_scores)

lemma term_scores_zero:
  assumes "well_formed m" and "\<forall>doc \<in> set (doc_freqs m). map_of doc q = None"
  shows "term_scores m q = replicate (corpus_size m) 0"
proof (rule nth_equalityI)
  show "length (term_scores m q) = length (replicate (corpus_size m) (0::real))"
    using assms(1) by (simp add: length_term_scores)
next
  fix i assume "i < length (term_scores m q)"
  then have i: "i < corpus_size m" using assms(1) by (simp add: length_term_scores)
  then have "doc_freqs m ! i \<in> set (doc_freqs m)"
    using assms(1) by (simp add: well_formed_def)
  then have "get_or_0 (doc_freqs m ! i) q = 0"
    using assms(2) by (simp add: get_or_0_def)
  then show "term_scores m q ! i = replicate (corpus_size m) 0 ! i"
    using i assms(1) by (simp add: term_scores_def well_formed_def)
qed

lemma map2_add_zero: "map2 (+) (replicate n (0::real)) (replicate n 0) = replicate n 0"
  by (induction n) auto

lemma get_scores_zero:
  assumes "well_formed m"
    and "\<forall>q \<in> set ts. \<forall>doc \<in> set (doc_freqs m). map_of doc q = None"
  shows "get_scores m ts = replicate (corpus_size m) 0"
proof -
  have "fold (\<lambda>q score. map2 (+) score (term_scores m q)) ts (replicate (corpus_size m) 0)
        = replicate (corpus_size m) 0"
    using assms(2)
  proof (induction ts)
    case Nil
    then show ?case by simp
  next
    case (Cons t ts)
    then have "term_scores m t = replicate (corpus_size m) 0"
      using assms(1) by (intro term_scores_zero) auto
    with Cons show ?case by (simp add: map2_add_zero)
  qed
  then show ?thesis by (simp add: get_scores_def)
qed

lemma get_scores_unmatched:
  assumes "BM25Okapi corpus = Inr m"
    and "\<forall>q \<in> set ts. \<forall>document \<in> set corpus. q \<notin> set document"
  shows "get_scores m ts = replicate (length corpus) 0"
proof -
  have "\<forall>q \<in> set ts. \<forall>doc \<in> set (doc_freqs m). map_of doc q = None"
    using assms by (auto simp: BM25Okapi_fields frequencies_None)
  with get_scores_zero [OF BM25Okapi_well_formed [OF assms(1)]] assms(1)
  show ?thesis by (simp add: BM25Okapi_fields)
qed

subsection \<open>Partitions, sorting and formatting\<close>

lemma partitioned_mset: "partitioned a k p \<Longrightarrow> mset p = mset [0..<length a]"
  unfolding partitioned_def by (metis mset_sort)

lemma partitioned_props:
  assumes "partitioned a k p"
  shows "length p = length a" and "distinct p" and "set p = {0..<length a}"
proof -
  note m = partitioned_mset [OF assms]
  show "length p = length a" using mset_eq_length [OF m] by simp
  show "distinct p" using mset_eq_imp_distinct_iff [OF m] by simp
  show "set p = {0..<length a}" using mset_eq_setD [OF m] by simp
qed

lemma partitioned_below:
  "partitioned a k p \<Longrightarrow> i < k \<Longrightarrow> a ! (p ! i) \<le> a ! (p ! k)"
  by (simp add: partitioned_def list_all_iff)

lemma partitioned_above:
  "partitioned a k p \<Longrightarrow> k < i \<Longrightarrow> i < length a \<Longrightarrow> a ! (p ! k) \<le> a ! (p ! i)"
  by (simp add: partitioned_def list_all_iff)

lemma insort_key_map:
  "insort_key f (g x) (map g ys) = map g (insort_key (\<lambda>y. f (g y)) x ys)"
  by (induction ys) auto

lemma sort_key_map: "sort_key f (map g xs) = map g (sort_key (\<lambda>y. f (g y)) xs)"
  by (induction xs) (auto simp: insort_key_map)

lemma sort_reverse_map: "sort_reverse f (map g xs) = map g (sort_reverse (\<lambda>y. f (g y)) xs)"
  by (simp add: sort_reverse_def rev_map sort_key_map)

lemma mset_sort_reverse: "mset (sort_reverse f xs) = mset xs"
  by (simp add: sort_reverse_def)

lemma sort_reverse_props:
  shows length_sort_reverse: "length (sort_reverse f xs) = length xs"
    and set_sort_reverse: "set (sort_reverse f xs) = set xs"
    and distinct_sort_reverse: "distinct (sort_reverse f xs) = distinct xs"
  by (simp_all add: sort_reverse_def)

lemma sorted_sort_reverse: "sorted_wrt (\<lambda>x y. f y \<le> f x) (sort_reverse f xs)"
proof -
  have "sorted (map f (sort_key f (rev xs)))" by (rule sorted_sort_key)
  then have "sorted_wrt (\<lambda>x y. f x \<le> f y) (sort_key f (rev xs))"
    by (simp add: sorted_map)
  then show ?thesis by (simp add: sort_reverse_def sorted_wrt_rev)
qed

lemma similarity_score_result_dict: "similarity_score (result_dict scores path cs i) = scores ! i"
  by (simp add: similarity_score_def result_dict_def)

lemma format_results_in_range:
  "\<forall>i \<in> set idx. i < length scores \<and> i < length cs \<Longrightarrow>
   format_results scores path cs idx = Inr (map (result_dict scores path cs) idx)"
  by (induction idx) auto

lemma format_results_Inr:
  "format_results scores path cs idx = Inr rs \<Longrightarrow> rs = map (result_dict scores path cs) idx"
  by (induction idx arbitrary: rs) (auto split: if_splits sum.splits)

lemma format_results_Inl:
  "format_results scores path cs idx = Inl e \<Longrightarrow> e = IndexError"
  by (induction idx) (auto split: if_splits sum.splits)

lemma argpartition_in_bounds:
  "1 \<le> top_k \<Longrightarrow> top_k \<le> int (length a) \<Longrightarrow> argpartition p a (- top_k) = Inr p"
  by (simp add: argpartition_def Let_def)

lemma argpartition_out_of_bounds:
  "int (length a) < top_k \<Longrightarrow> argpartition p a (- top_k) = Inl (ValueError ''kth out of bounds'')"
  by (simp add: argpartition_def Let_def)

lemma kth_pos_neg: "1 \<le> top_k \<Longrightarrow> top_k \<le> int n \<Longrightarrow> kth_pos n (- top_k) = n - nat top_k"
  by (simp add: kth_pos_def)

text \<open>The selected indices dominate the others.\<close>
lemma partitioned_drop_dominates:
  assumes part: "partitioned a k p" and k: "k < length a"
    and i: "i \<in> set (drop k p)" and j: "j < length a" "j \<notin> set (drop k p)"
  shows "a ! j \<le> a ! i"
proof -
  note props = partitioned_props [OF part]
  from i obtain i' where i': "i = p ! i'" "k \<le> i'" "i' < length p"
    by (auto simp: in_set_conv_nth)
  have "j \<in> set p" using j props by simp
  then have "j \<in> set (take k p)"
    using j(2) by (metis Un_iff append_take_drop_id set_append)
  then obtain j' where j': "j = p ! j'" "j' < k"
    by (auto simp: in_set_conv_nth)
  have "a ! j \<le> a ! (p ! k)" using partitioned_below [OF part j'(2)] j'(1) by simp
  also have "a ! (p ! k) \<le> a ! i"
  proof (cases "i' = k")
    case True
    then show ?thesis using i' by simp
  next
    case False
    then have "k < i'" using i' by simp
    then show ?thesis using partitioned_above [OF part, of i'] i' props by simp
  qed
  finally show ?thesis .
qed

subsection \<open>\<open>process\<close> and \<open>query\<close> on an arbitrary object\<close>

lemma tokenized_corpus_no_empty: "[] \<notin> set (tokenized_corpus cs)"
  by (auto simp: tokenized_corpus_def str_split_not_Nil [THEN not_sym])

lemma process_loaded:
  assumes "load_chunks io path chunk_type kw = Inr cs"
  shows "process io self path chunk_type kw =
           (case BM25Okapi (tokenized_corpus cs) of
              Inl e \<Rightarrow> (Inl e, self\<lparr>content_input_path := path, chunks := cs\<rparr>)
            | Inr m \<Rightarrow> (Inr (), self\<lparr>content_input_path := path, chunks := cs, bm25 := Some m\<rparr>))"
  using assms by (simp add: process_def Let_def split: sum.splits)

lemma process_not_loaded:
  assumes "load_chunks io path chunk_type kw = Inl e"
  shows "process io self path chunk_type kw = (Inl e, self\<lparr>content_input_path := path\<rparr>)"
  using assms by (simp add: process_def Let_def)

lemma process_nonempty:
  assumes "load_chunks io path chunk_type kw = Inr cs" and "cs \<noteq> []"
  shows "\<exists>m. BM25Okapi (tokenized_corpus cs) = Inr m \<and>
             process io self path chunk_type kw =
               (Inr (), self\<lparr>content_input_path := path, chunks := cs, bm25 := Some m\<rparr>)"
proof -
  have "tokenized_corpus cs \<noteq> []" using assms(2) by (simp add: tokenized_corpus_def)
  then obtain m where "BM25Okapi (tokenized_corpus cs) = Inr m"
    using BM25Okapi_succeeds tokenized_corpus_no_empty by blast
  then show ?thesis using process_loaded [OF assms(1)] by simp
qed

lemma process_empty:
  assumes "load_chunks io path chunk_type kw = Inr []"
  shows "process io self path chunk_type kw =
           (Inl ZeroDivisionError, self\<lparr>content_input_path := path, chunks := []\<rparr>)"
  using process_loaded [OF assms] by (simp add: tokenized_corpus_def BM25Okapi_Nil)

lemma process_path: "content_input_path (snd (process io self path chunk_type kw)) = path"
  by (simp add: process_def Let_def split: sum.splits)

lemma process_Inr_built:
  assumes "process io self path chunk_type kw = (Inr (), self')"
  shows "built_from_chunks self'" and "content_input_path self' = path" and "chunks self' \<noteq> []"
  using assms
  by (auto simp: process_def Let_def built_from_chunks_def tokenized_corpus_def BM25Okapi_Nil
      split: sum.splits)

lemma built_length_scores:
  assumes "built_from_chunks self"
  shows "length (scores_of self q) = length (chunks self)"
proof -
  from assms obtain m where m: "bm25 self = Some m" "BM25Okapi (tokenized_corpus (chunks self)) = Inr m"
    by (auto simp: built_from_chunks_def split: option.splits)
  have "length (get_scores m (processed_query q)) = corpus_size m"
    by (rule length_get_scores [OF BM25Okapi_well_formed [OF m(2)]])
  then show ?thesis using m by (simp add: scores_of_def BM25Okapi_fields tokenized_corpus_def)
qed

lemma query_unfold:
  assumes "0 < top_k" and "bm25 self = Some m"
  shows "query p self q top_k =
    (case argpartition p (scores_of self q) (- top_k) of
       Inl e \<Rightarrow> Inl e
     | Inr part \<Rightarrow>
        (case format_results (scores_of self q) (content_input_path self) (chunks self)
                (drop (length part - nat top_k) part) of
           Inl e \<Rightarrow> Inl e
         | Inr rs \<Rightarrow> Inr (sort_reverse similarity_score rs)))"
  using assms by (simp add: query_def scores_of_def Let_def split: sum.splits)

lemma query_selected:
  assumes built: "built_from_chunks self"
    and k: "1 \<le> top_k" "top_k \<le> int (length (chunks self))"
    and part: "partitioned (scores_of self q) (length (chunks self) - nat top_k) p"
  shows "query p self q top_k =
           Inr (map (result_dict (scores_of self q) (content_input_path self) (chunks self))
                  (sort_reverse (\<lambda>i. scores_of self q ! i)
                     (drop (length (chunks self) - nat top_k) p)))"
proof -
  let ?a = "scores_of self q"
  have len: "length ?a = length (chunks self)" by (rule built_length_scores [OF built])
  note props = partitioned_props [OF part]
  from built obtain m where m: "bm25 self = Some m"
    by (auto simp: built_from_chunks_def split: option.splits)
  have arg: "argpartition p ?a (- top_k) = Inr p"
    using k len by (simp add: argpartition_in_bounds)
  have "\<forall>i \<in> set (drop (length p - nat top_k) p). i < length ?a \<and> i < length (chunks self)"
    using props len by (auto dest!: in_set_dropD)
  then have fmt: "format_results ?a (content_input_path self) (chunks self)
                    (drop (length p - nat top_k) p)
                  = Inr (map (result_dict ?a (content_input_path self) (chunks self))
                          (drop (length p - nat top_k) p))"
    by (rule format_results_in_range)
  show ?thesis
    using k(1) m arg fmt props(1) len
    by (simp add: query_unfold sort_reverse_map similarity_score_result_dict)
qed

lemma query_out_of_bounds:
  assumes built: "built_from_chunks self"
    and k: "int (length (chunks self)) < top_k"
  shows "query p self q top_k = Inl (ValueError ''kth out of bounds'')"
proof -
  from built obtain m where m: "bm25 self = Some m"
    by (auto simp: built_from_chunks_def split: option.splits)
  have "0 < top_k" using k by linarith
  then show ?thesis
    using m k built_length_scores [OF built, of q]
    by (simp add: query_unfold argpartition_out_of_bounds)
qed

subsection \<open>The example inputs evaluated\<close>

lemma load_loader_of: "load_chunks (loader_of cs) path chunk_type kw = Inr cs"
  by (simp add: load_chunks_def loader_of_def)

lemma load_failing_loader:
  "load_chunks failing_loader path chunk_type kw = Inl (LoaderError ''cannot fetch'')"
  by (simp add: load_chunks_def failing_loader_def)

lemma pets_eq:
  "pets = [\<lparr>chunk_str = ''the cat sat'', chunk_metadata = 0\<rparr>,
           \<lparr>chunk_str = ''the dog ran'', chunk_metadata = 1\<rparr>,
           \<lparr>chunk_str = ''cats and dogs'', chunk_metadata = 2\<rparr>]"
  by (simp add: pets_def numbered_def)

lemma letters_eq:
  "letters = [\<lparr>chunk_str = ''a'', chunk_metadata = 0\<rparr>,
              \<lparr>chunk_str = ''a'', chunk_metadata = 1\<rparr>,
              \<lparr>chunk_str = ''b'', chunk_metadata = 2\<rparr>,
              \<lparr>chunk_str = ''c'', chunk_metadata = 3\<rparr>,
              \<lparr>chunk_str = ''d'', chunk_metadata = 4\<rparr>]"
  by (simp add: letters_def numbered_def)

lemma process_twice:
  "load_chunks io' path chunk_type' kw' = load_chunks io path chunk_type kw \<Longrightarrow>
   process io' (snd (process io self path chunk_type kw)) path chunk_type' kw'
     = process io self path chunk_type kw"
  by (simp add: process_def Let_def split: sum.splits)

lemma process_pets:
  "\<exists>m. process (loader_of pets) self path chunk_type kw
          = (Inr (), self\<lparr>content_input_path := path, chunks := pets, bm25 := Some m\<rparr>)"
  using process_nonempty [OF load_loader_of, of pets self path chunk_type kw]
  by (auto simp: pets_eq)

lemma query_Inr_results:
  assumes "query p self q top_k = Inr rs" and "r \<in> set rs"
  shows "\<exists>i. r = result_dict (scores_of self q) (content_input_path self) (chunks self) i"
proof -
  from assms(1) have pos: "0 < top_k" by (auto simp: query_def split: if_splits)
  from assms(1) pos obtain m where m: "bm25 self = Some m"
    by (auto simp: query_def split: option.splits)
  from assms(1) obtain part fr where
    fr: "format_results (scores_of self q) (content_input_path self) (chunks self)
           (drop (length part - nat top_k) part) = Inr fr"
    and rs: "rs = sort_reverse similarity_score fr"
    by (auto simp: query_unfold [OF pos m] split: sum.splits)
  from assms(2) rs have "r \<in> set fr" by (simp add: set_sort_reverse)
  with format_results_Inr [OF fr] show ?thesis by auto
qed

lemma raw_idf_pos: "2 * freq < n \<Longrightarrow> 0 < raw_idf n freq"
  by (simp add: raw_idf_def)

lemma raw_idf_neg: "n < 2 * freq \<Longrightarrow> freq \<le> n \<Longrightarrow> raw_idf n freq < 0"
  by (simp add: raw_idf_def)

lemma tokens_pets:
  "tokenized_corpus pets =
     [[''the'', ''cat'', ''sat''], [''the'', ''dog'', ''ran''], [''cats'', ''and'', ''dogs'']]"
  by (simp add: pets_eq tokenized_corpus_def)

lemma nd_pets:
  "nd_of [[''the'', ''cat'', ''sat''], [''the'', ''dog'', ''ran''], [''cats'', ''and'', ''dogs'']]
   = [(''the'', 2), (''cat'', 1), (''sat'', 1), (''dog'', 1), (''ran'', 1), (''cats'', 1),
      (''and'', 1), (''dogs'', 1)]"
  by (simp add: nd_of_def frequencies_def bump_def)

lemma okapi_pets:
  "BM25Okapi [[''the'', ''cat'', ''sat''], [''the'', ''dog'', ''ran''], [''cats'', ''and'', ''dogs'']]
   = Inr pets_index"
    using raw_idf_pos [of 1 3] raw_idf_neg [of 3 2]
  by (simp add: BM25Okapi_def nd_pets calc_idf_def Let_def frequencies_def bump_def
      eval_nat_numeral pets_eps_def pets_index_def)

lemma sort_reverse_stable:
  "filter (\<lambda>x. f x = v) (sort_reverse f xs) = filter (\<lambda>x. f x = v) xs"
  by (simp add: sort_reverse_def rev_filter [symmetric] sort_key_stable)

lemma process_nonempty_state:
  assumes "load_chunks io path chunk_type kw = Inr cs" and "cs \<noteq> []"
  shows "fst (process io self path chunk_type kw) = Inr ()"
    and "built_from_chunks (snd (process io self path chunk_type kw))"
    and "chunks (snd (process io self path chunk_type kw)) = cs"
  using process_nonempty [OF assms, of self]
  by (auto simp: built_from_chunks_def)

lemma process_pets_eq:
  "process (loader_of pets) self path chunk_type kw
     = (Inr (), self\<lparr>content_input_path := path, chunks := pets, bm25 := Some pets_index\<rparr>)"
  by (simp add: process_loaded [OF load_loader_of] tokens_pets okapi_pets)

lemma scores_pets_cat:
  "scores_of (snd (process (loader_of pets) self path chunk_type kw)) ''cat'' = [raw_idf 3 1, 0, 0]"
  by (simp add: process_pets_eq scores_of_def processed_query_def pets_index_def get_scores_def
      term_scores_def get_or_0_def bm25_k1_def bm25_b_def eval_nat_numeral)

lemma length_pets: "length pets = 3"
  by (simp add: pets_eq)

lemma length_letters: "length letters = 5"
  by (simp add: letters_eq)

lemma tokens_letters: "tokenized_corpus letters = [[''a''], [''a''], [''b''], [''c''], [''d'']]"
  by (simp add: letters_eq tokenized_corpus_def)

lemma nd_letters:
  "nd_of [[''a''], [''a''], [''b''], [''c''], [''d'']]
   = [(''a'', 2), (''b'', 1), (''c'', 1), (''d'', 1)]"
  by (simp add: nd_of_def frequencies_def bump_def)

lemma okapi_letters: "BM25Okapi [[''a''], [''a''], [''b''], [''c''], [''d'']] = Inr letters_index"
  using raw_idf_pos [of 2 5] raw_idf_pos [of 1 5]
  by (simp add: BM25Okapi_def nd_letters calc_idf_def Let_def frequencies_def bump_def
      eval_nat_numeral letters_index_def)

lemma process_letters_eq:
  "process (loader_of letters) self path chunk_type kw
     = (Inr (), self\<lparr>content_input_path := path, chunks := letters, bm25 := Some letters_index\<rparr>)"
  by (simp add: process_loaded [OF load_loader_of] tokens_letters okapi_letters)

lemma scores_letters_a:
  "scores_of (snd (process (loader_of letters) self path chunk_type kw)) ''a''
     = [raw_idf 5 2, raw_idf 5 2, 0, 0, 0]"
  by (simp add: process_letters_eq scores_of_def processed_query_def letters_index_def
      get_scores_def term_scores_def get_or_0_def bm25_k1_def bm25_b_def eval_nat_numeral)

lemma built_letters:
  "built_from_chunks (snd (process (loader_of letters) self path chunk_type kw))"
  by (simp add: process_letters_eq built_from_chunks_def tokens_letters okapi_letters)

lemma built_pets:
  "built_from_chunks (snd (process (loader_of pets) self path chunk_type kw))"
  by (simp add: process_pets_eq built_from_chunks_def tokens_pets okapi_pets)

lemma query_pets_cat:
  "query [1, 2, 0] (snd (process (loader_of pets) self path chunk_type kw)) ''cat'' 2
     = Inr (map (result_dict [raw_idf 3 1, 0, 0] path pets) [0, 2])"
proof -
  let ?s = "snd (process (loader_of pets) self path chunk_type kw)"
  have pos: "0 < raw_idf 3 1" by (rule raw_idf_pos) simp
  have ch: "chunks ?s = pets" and pa: "content_input_path ?s = path"
    by (simp_all add: process_pets_eq)
  have part: "partitioned (scores_of ?s ''cat'') (length (chunks ?s) - nat 2) [1, 2, 0]"
    using pos by (simp add: scores_pets_cat ch length_pets partitioned_def eval_nat_numeral)
  show ?thesis
    using query_selected [OF built_pets _ _ part] pos
    by (simp add: ch pa length_pets scores_pets_cat sort_reverse_def)
qed

lemma length_fold_scores_le:
  "length (fold (\<lambda>q score. map2 (+) score (term_scores m q)) ts acc) \<le> length acc"
proof (induction ts arbitrary: acc)
  case Nil
  then show ?case by simp
next
  case (Cons t ts)
  have "length (fold (\<lambda>q score. map2 (+) score (term_scores m q)) ts
                  (map2 (+) acc (term_scores m t)))
          \<le> length (map2 (+) acc (term_scores m t))"
    by (rule Cons.IH)
  then show ?case by simp
qed

lemma sort_reverse_equal_keys:
  assumes "\<forall>x \<in> set xs. f x = c"
  shows "sort_reverse f xs = xs"
proof -
  have "filter (\<lambda>x. f x = c) (sort_reverse f xs) = sort_reverse f xs"
    using assms by (simp add: set_sort_reverse)
  moreover have "filter (\<lambda>x. f x = c) xs = xs" using assms by simp
  ultimately show ?thesis using sort_reverse_stable [of f c xs] by simp
qed

lemma scores_unmatched:
  assumes "load_chunks io path chunk_type kw = Inr cs" and "cs \<noteq> []"
    and "\<forall>t \<in> set (processed_query q). \<forall>document \<in> set (tokenized_corpus cs). t \<notin> set document"
  shows "scores_of (snd (process io self0 path chunk_type kw)) q = replicate (length cs) 0"
proof -
  from process_nonempty [OF assms(1,2), of self0] obtain m where
    m: "BM25Okapi (tokenized_corpus cs) = Inr m"
    and p: "process io self0 path chunk_type kw
              = (Inr (), self0\<lparr>content_input_path := path, chunks := cs, bm25 := Some m\<rparr>)"
    by blast
  have "get_scores m (processed_query q) = replicate (length (tokenized_corpus cs)) 0"
    using get_scores_unmatched [OF m assms(3)] .
  then show ?thesis by (simp add: p scores_of_def tokenized_corpus_def)
qed

lemma unmatched_bird:
  "\<forall>t \<in> set (processed_query ''bird''). \<forall>document \<in> set (tokenized_corpus pets). t \<notin> set document"
  by (simp add: processed_query_def tokens_pets)

section \<open>The claims\<close>

text \<open>
  Claim C1, as amended. For a non-empty corpus ingested by \<open>process\<close>, a query with
  \<open>1 \<le> top_k \<le> N\<close> (\<open>N\<close> the number of documents) and any answer \<open>p\<close> that
  \<open>np.argpartition(scores, -top_k)\<close> may give: \<open>query\<close> returns exactly \<open>top_k\<close> results,
  for distinct documents, in order of non-increasing score; no document left out scores
  higher than a returned one; and results with equal scores stay in the order in which
  \<open>p\<close> lists them, which need not be the order of the document ids.
\<close>

theorem query_top_k_ranked:
  assumes "load_chunks io path chunk_type kw = Inr cs" and "cs \<noteq> []"
    and "1 \<le> top_k" and "top_k \<le> int (length cs)"
    and "partitioned (scores_of (snd (process io self0 path chunk_type kw)) q)
           (kth_pos (length cs) (- top_k)) p"
  shows "let self = snd (process io self0 path chunk_type kw);
             scores = scores_of self q;
             selected = drop (length cs - nat top_k) p;
             idx = sort_reverse (\<lambda>i. scores ! i) selected
         in query p self q top_k = Inr (map (result_dict scores path cs) idx)
            \<and> length idx = nat top_k \<and> distinct idx \<and> set idx \<subseteq> {0..<length cs}
            \<and> sorted_wrt (\<lambda>i j. scores ! j \<le> scores ! i) idx
            \<and> (\<forall>j<length cs. j \<notin> set idx \<longrightarrow> (\<forall>i \<in> set idx. scores ! j \<le> scores ! i))
            \<and> (\<forall>v. filter (\<lambda>i. scores ! i = v) idx = filter (\<lambda>i. scores ! i = v) selected)"
proof -
  define self where "self = snd (process io self0 path chunk_type kw)"
  define scores where "scores = scores_of self q"
  define selected where "selected = drop (length cs - nat top_k) p"
  define idx where "idx = sort_reverse (\<lambda>i. scores ! i) selected"
  note st = process_nonempty_state [OF assms(1,2), of self0, folded self_def]
  have path: "content_input_path self = path" by (simp add: self_def process_path)
  have len: "length scores = length cs"
    using built_length_scores [OF st(2), of q] st(3) by (simp add: scores_def)
  have part: "partitioned scores (length cs - nat top_k) p"
    using assms(3-5) by (simp add: kth_pos_neg scores_def self_def)
  note props = partitioned_props [OF part]
  have k: "length cs - nat top_k < length scores" using assms(2,3) len by auto
  have q: "query p self q top_k = Inr (map (result_dict scores path cs) idx)"
    using query_selected [OF st(2), of top_k q p] assms(3,4) part
    by (simp add: st(3) path scores_def idx_def selected_def)
  have l: "length idx = nat top_k"
    using props(1) len assms(3,4) by (simp add: idx_def selected_def length_sort_reverse)
  have d: "distinct idx"
    using props(2) by (simp add: idx_def selected_def distinct_sort_reverse)
  have sel: "set idx = set selected" by (simp add: idx_def set_sort_reverse)
  have s: "set idx \<subseteq> {0..<length cs}"
    using props(3) len set_drop_subset [of "length cs - nat top_k" p]
    by (simp add: sel selected_def)
  have o: "sorted_wrt (\<lambda>i j. scores ! j \<le> scores ! i) idx"
    unfolding idx_def by (rule sorted_sort_reverse)
  have dom: "\<forall>j<length cs. j \<notin> set idx \<longrightarrow> (\<forall>i \<in> set idx. scores ! j \<le> scores ! i)"
    using partitioned_drop_dominates [OF part k] len by (simp add: sel selected_def)
  have stab: "\<forall>v. filter (\<lambda>i. scores ! i = v) idx = filter (\<lambda>i. scores ! i = v) selected"
    by (simp add: idx_def sort_reverse_stable)
  from q l d s o dom stab show ?thesis
    unfolding Let_def self_def [symmetric] scores_def [symmetric] selected_def [symmetric]
      idx_def [symmetric]
    by blast
qed

text \<open>
  Witness for C1: the corpus \<open>pets\<close>, the query \<open>cat\<close>, \<open>top_k = 2\<close>, and the partition
  \<open>[1, 2, 0]\<close>. The results are documents 0 and 2, in this order.
\<close>

theorem query_top_k_ranked_witness:
  "load_chunks (loader_of pets) ''pets.txt'' ''chunk_by_title'' [] = Inr pets
   \<and> pets \<noteq> [] \<and> (1::int) \<le> 2 \<and> 2 \<le> int (length pets)
   \<and> partitioned (scores_of (snd (process (loader_of pets) init ''pets.txt'' ''chunk_by_title'' [])) ''cat'')
        (kth_pos (length pets) (- 2)) [1, 2, 0]
   \<and> query [1, 2, 0] (snd (process (loader_of pets) init ''pets.txt'' ''chunk_by_title'' [])) ''cat'' 2
       = Inr (map (result_dict [raw_idf 3 1, 0, 0] ''pets.txt'' pets) [0, 2])"
proof -
  have pos: "0 < raw_idf 3 1" by (rule raw_idf_pos) simp
  have h1: "load_chunks (loader_of pets) ''pets.txt'' ''chunk_by_title'' [] = Inr pets"
    by (rule load_loader_of)
  have h2: "pets \<noteq> []" by (simp add: pets_eq)
  have h3: "(1::int) \<le> 2" by simp
  have h4: "2 \<le> int (length pets)" by (simp add: length_pets)
  have h5: "partitioned (scores_of (snd (process (loader_of pets) init ''pets.txt'' ''chunk_by_title'' [])) ''cat'')
        (kth_pos (length pets) (- 2)) [1, 2, 0]"
    using pos by (simp add: scores_pets_cat length_pets kth_pos_def partitioned_def eval_nat_numeral)
  show ?thesis
    using h1 h2 h4 h5 pos query_top_k_ranked [OF h1 h2 h3 h4 h5]
    by (simp add: Let_def scores_pets_cat length_pets sort_reverse_def)
qed

text \<open>
  Counterexample to C1 as stated. The corpus is \<open>letters\<close>, the query \<open>a\<close>. With
  \<open>top_k = 3\<close> the permutation \<open>[2, 3, 4, 1, 0]\<close> is a possible answer of
  \<open>np.argpartition\<close> (it is the one a selection of the three smallest elements by
  successive minima leaves behind); the results are then documents 1, 0 and 4 in this order, and
  documents 1 and 0 have the same score, so equal scores are not in ascending order of
  the document id. With \<open>top_k = 6\<close>, more than the five documents, \<open>query\<close> returns no
  list at all: it raises.
\<close>

theorem query_tie_order_counterexample:
  "partitioned (scores_of (snd (process (loader_of letters) init ''abc.txt'' ''chunk_by_title'' [])) ''a'')
     (kth_pos (length letters) (- 3)) [2, 3, 4, 1, 0]
   \<and> query [2, 3, 4, 1, 0] (snd (process (loader_of letters) init ''abc.txt'' ''chunk_by_title'' [])) ''a'' 3
       = Inr (map (result_dict [raw_idf 5 2, raw_idf 5 2, 0, 0, 0] ''abc.txt'' letters) [1, 0, 4])
   \<and> [raw_idf 5 2, raw_idf 5 2, 0, 0, 0] ! 1 = [raw_idf 5 2, raw_idf 5 2, 0, 0, 0] ! 0
   \<and> \<not> spec_ranked [raw_idf 5 2, raw_idf 5 2, 0, 0, 0] [1, 0, 4]
   \<and> query [2, 3, 4, 1, 0] (snd (process (loader_of letters) init ''abc.txt'' ''chunk_by_title'' [])) ''a'' 6
       = Inl (ValueError ''kth out of bounds'')"
proof -
  let ?s = "snd (process (loader_of letters) init ''abc.txt'' ''chunk_by_title'' []) :: nat retriever"
  have pos: "0 < raw_idf 5 2" by (rule raw_idf_pos) simp
  have built: "built_from_chunks ?s" by (rule built_letters)
  have ch: "chunks ?s = letters" and pa: "content_input_path ?s = ''abc.txt''"
    by (simp_all add: process_letters_eq)
  have part: "partitioned (scores_of ?s ''a'') (length (chunks ?s) - nat 3) [2, 3, 4, 1, 0]"
    using pos by (simp add: scores_letters_a ch length_letters partitioned_def eval_nat_numeral)
  have a: "partitioned (scores_of ?s ''a'') (kth_pos (length letters) (- 3)) [2, 3, 4, 1, 0]"
    using part by (simp add: kth_pos_def ch length_letters)
  have b: "query [2, 3, 4, 1, 0] ?s ''a'' 3
       = Inr (map (result_dict [raw_idf 5 2, raw_idf 5 2, 0, 0, 0] ''abc.txt'' letters) [1, 0, 4])"
    using query_selected [OF built _ _ part] pos
    by (simp add: ch pa length_letters scores_letters_a sort_reverse_def)
  have c: "\<not> spec_ranked [raw_idf 5 2, raw_idf 5 2, 0, 0, 0] [1, 0, 4]"
    by (simp add: spec_ranked_def)
  have d: "query [2, 3, 4, 1, 0] ?s ''a'' 6 = Inl (ValueError ''kth out of bounds'')"
    by (rule query_out_of_bounds [OF built]) (simp add: ch length_letters)
  from a b c d show ?thesis by simp
qed

text \<open>
  Claim C2, the behaviour of the code. For a non-empty corpus of \<open>N\<close> documents ingested
  by \<open>process\<close> and \<open>top_k > N\<close>, \<open>query\<close> does not return the \<open>N\<close> documents: the
  call \<open>np.argpartition(scores, -top_k)\<close> raises \<open>ValueError\<close>, whatever the query.
\<close>

theorem query_top_k_exceeds_corpus:
  assumes "load_chunks io path chunk_type kw = Inr cs" and "cs \<noteq> []"
    and "int (length cs) < top_k"
  shows "query p (snd (process io self0 path chunk_type kw)) q top_k
           = Inl (ValueError ''kth out of bounds'')"
  using process_nonempty_state [OF assms(1,2), of self0] assms(3)
  by (simp add: query_out_of_bounds)

text \<open>Witness for C2: \<open>top_k = 5\<close> against the three documents of \<open>pets\<close>.\<close>

theorem query_top_k_exceeds_corpus_witness:
  "load_chunks (loader_of pets) ''pets.txt'' ''chunk_by_title'' [] = Inr pets
   \<and> pets \<noteq> [] \<and> int (length pets) < 5
   \<and> query [0, 1, 2] (snd (process (loader_of pets) init ''pets.txt'' ''chunk_by_title'' [])) ''cat'' 5
       = Inl (ValueError ''kth out of bounds'')"
proof -
  have h1: "load_chunks (loader_of pets) ''pets.txt'' ''chunk_by_title'' [] = Inr pets"
    by (rule load_loader_of)
  have h2: "pets \<noteq> []" by (simp add: pets_eq)
  have h3: "int (length pets) < 5" by (simp add: length_pets)
  show ?thesis
    using h1 h2 h3 query_top_k_exceeds_corpus [OF h1 h2 h3, of "[0, 1, 2]" init "''cat''"]
    by simp
qed

text \<open>
  Claim C3, the behaviour of the code. When the loader yields no chunk, \<open>process\<close> itself
  raises \<open>ZeroDivisionError\<close> (from the constructor of the index) and leaves \<open>bm25\<close> as it
  was; on a fresh retriever the following query with \<open>top_k = 1\<close> raises the "model is
  not initialized" \<open>ValueError\<close> instead of returning the empty list.
\<close>

theorem process_empty_corpus:
  assumes "load_chunks io path chunk_type kw = Inr []"
  shows "process io self path chunk_type kw
           = (Inl ZeroDivisionError, self\<lparr>content_input_path := path, chunks := []\<rparr>)
       \<and> query p (snd (process io init path chunk_type kw)) q 1
           = Inl (ValueError ''BM25 model is not initialized. Call `process_and_store` first.'')"
  by (simp add: process_empty [OF assms] query_def init_def)

text \<open>Witness for C3: a loader that returns the empty list of chunks.\<close>

theorem process_empty_corpus_witness:
  "load_chunks (loader_of ([] :: nat chunk list)) ''empty.txt'' ''chunk_by_title'' [] = Inr []
   \<and> fst (process (loader_of ([] :: nat chunk list)) init ''empty.txt'' ''chunk_by_title'' [])
       = Inl ZeroDivisionError
   \<and> query [] (snd (process (loader_of ([] :: nat chunk list)) init ''empty.txt'' ''chunk_by_title'' []))
        ''cat'' 1
       = Inl (ValueError ''BM25 model is not initialized. Call `process_and_store` first.'')"
proof -
  have h: "load_chunks (loader_of ([] :: nat chunk list)) ''empty.txt'' ''chunk_by_title'' [] = Inr []"
    by (rule load_loader_of)
  show ?thesis
    using h process_empty_corpus [OF h, of init "[]" "''cat''", THEN conjunct1]
      process_empty_corpus [OF h, of init "[]" "''cat''", THEN conjunct2]
    by simp
qed

text \<open>
  Claim C4. On a retriever on which \<open>process\<close> has never been called, \<open>query\<close> with a
  positive \<open>top_k\<close> fails with the "model is not initialized" \<open>ValueError\<close>, whatever
  the query string, and returns no results.
\<close>

theorem query_before_process:
  "0 < top_k \<Longrightarrow>
   query p init q top_k =
     Inl (ValueError ''BM25 model is not initialized. Call `process_and_store` first.'')"
  by (simp add: query_def init_def)

text \<open>Witness for C4: the query \<open>cat\<close> with \<open>top_k = 1\<close> on a fresh retriever.\<close>

theorem query_before_process_witness:
  "(0::int) < 1 \<and>
   query [] (init :: nat retriever) ''cat'' 1 =
     Inl (ValueError ''BM25 model is not initialized. Call `process_and_store` first.'')"
  using query_before_process [of 1 "[]" "''cat''"] by simp

text \<open>
  Claim C5. \<open>query\<close> raises the "top_k must be a positive integer" \<open>ValueError\<close> exactly
  when \<open>top_k \<le> 0\<close>. The statement holds for every object, also one without an index:
  the check on \<open>top_k\<close> comes before the check on the index and before any scoring.
\<close>

theorem query_top_k_not_positive:
  "(query p self q top_k = Inl (ValueError ''top_k must be a positive integer.'')) = (top_k \<le> 0)"
proof (cases "top_k \<le> 0")
  case True
  then show ?thesis by (simp add: query_def)
next
  case False
  have "query p self q top_k \<noteq> Inl (ValueError ''top_k must be a positive integer.'')"
  proof (cases "bm25 self")
    case None
    with False show ?thesis by (simp add: query_def)
  next
    case (Some m)
    with False show ?thesis
      by (auto simp: query_unfold argpartition_def Let_def
          split: sum.splits dest: format_results_Inl)
  qed
  with False show ?thesis by simp
qed

text \<open>Witness for C5: \<open>top_k\<close> equal to 0, to -3 and to 1 on a fresh retriever.\<close>

theorem query_top_k_not_positive_witness:
  "query [] (init :: nat retriever) ''cat'' 0 = Inl (ValueError ''top_k must be a positive integer.'')
   \<and> query [] (init :: nat retriever) ''cat'' (- 3) = Inl (ValueError ''top_k must be a positive integer.'')
   \<and> query [] (init :: nat retriever) ''cat'' 1 \<noteq> Inl (ValueError ''top_k must be a positive integer.'')"
  using query_top_k_not_positive [of "[]" init "''cat''" 0]
    query_top_k_not_positive [of "[]" init "''cat''" "- 3"]
    query_top_k_not_positive [of "[]" init "''cat''" 1]
  by simp

text \<open>
  Claim C6, the behaviour of the code. For a query none of whose terms is in any document
  all scores are 0; with \<open>top_k\<close> larger than the number of documents the query then
  raises \<open>ValueError\<close> in \<open>np.argpartition\<close> instead of returning all documents.
\<close>

theorem query_unmatched_top_k_exceeds:
  assumes "load_chunks io path chunk_type kw = Inr cs" and "cs \<noteq> []"
    and "\<forall>t \<in> set (processed_query q). \<forall>document \<in> set (tokenized_corpus cs). t \<notin> set document"
    and "int (length cs) < top_k"
  shows "scores_of (snd (process io self0 path chunk_type kw)) q = replicate (length cs) 0
       \<and> query p (snd (process io self0 path chunk_type kw)) q top_k
           = Inl (ValueError ''kth out of bounds'')"
  using scores_unmatched [OF assms(1-3), of self0]
    process_nonempty_state [OF assms(1,2), of self0] assms(4)
  by (simp add: query_out_of_bounds)

text \<open>Witness for C6: the query \<open>bird\<close> with \<open>top_k = 5\<close> on the corpus \<open>pets\<close>.\<close>

theorem query_unmatched_top_k_exceeds_witness:
  "load_chunks (loader_of pets) ''pets.txt'' ''chunk_by_title'' [] = Inr pets
   \<and> pets \<noteq> [] \<and> int (length pets) < 5
   \<and> list_all (\<lambda>t. list_all (\<lambda>document. t \<notin> set document) (tokenized_corpus pets))
        (processed_query ''bird'')
   \<and> scores_of (snd (process (loader_of pets) init ''pets.txt'' ''chunk_by_title'' [])) ''bird''
       = [0, 0, 0]
   \<and> query [0, 1, 2] (snd (process (loader_of pets) init ''pets.txt'' ''chunk_by_title'' [])) ''bird'' 5
       = Inl (ValueError ''kth out of bounds'')"
proof -
  have h1: "load_chunks (loader_of pets) ''pets.txt'' ''chunk_by_title'' [] = Inr pets"
    by (rule load_loader_of)
  have h2: "pets \<noteq> []" by (simp add: pets_eq)
  have h3: "int (length pets) < 5" by (simp add: length_pets)
  note h4 = unmatched_bird
  have l: "list_all (\<lambda>t. list_all (\<lambda>document. t \<notin> set document) (tokenized_corpus pets))
        (processed_query ''bird'')"
    using h4 by (simp add: list_all_iff)
  show ?thesis
    using h1 h2 h3 l
      query_unmatched_top_k_exceeds [OF h1 h2 h4 h3, of init "[0, 1, 2]", THEN conjunct1]
      query_unmatched_top_k_exceeds [OF h1 h2 h4 h3, of init "[0, 1, 2]", THEN conjunct2]
    by (simp add: length_pets eval_nat_numeral)
qed

text \<open>
  Within the bound \<open>1 \<le> top_k \<le> N\<close>, a query none of whose terms is in any document
  returns exactly \<open>top_k\<close> results, each with similarity score 0: documents without a
  matching term are not filtered out.
\<close>

theorem query_unmatched_scores_zero:
  assumes "load_chunks io path chunk_type kw = Inr cs" and "cs \<noteq> []"
    and "\<forall>t \<in> set (processed_query q). \<forall>document \<in> set (tokenized_corpus cs). t \<notin> set document"
    and "1 \<le> top_k" and "top_k \<le> int (length cs)"
    and "partitioned (scores_of (snd (process io self0 path chunk_type kw)) q)
           (kth_pos (length cs) (- top_k)) p"
  shows "query p (snd (process io self0 path chunk_type kw)) q top_k
           = Inr (map (result_dict (replicate (length cs) 0) path cs)
                    (drop (length cs - nat top_k) p))
       \<and> length (drop (length cs - nat top_k) p) = nat top_k
       \<and> (\<forall>i \<in> set (drop (length cs - nat top_k) p).
            i < length cs
            \<and> map_of (result_dict (replicate (length cs) 0) path cs i) ''similarity score''
                = Some (Float 0))"
proof -
  let ?s = "snd (process io self0 path chunk_type kw)"
  let ?sel = "drop (length cs - nat top_k) p"
  have sc: "scores_of ?s q = replicate (length cs) 0"
    by (rule scores_unmatched [OF assms(1-3)])
  note st = process_nonempty_state [OF assms(1,2), of self0]
  have part: "partitioned (scores_of ?s q) (length (chunks ?s) - nat top_k) p"
    using assms(4-6) by (simp add: kth_pos_neg st(3))
  note props = partitioned_props [OF part]
  have len: "length p = length cs" using props(1) by (simp add: sc)
  have sub: "\<forall>i \<in> set ?sel. i < length cs"
    using props(3) by (auto simp: sc dest!: in_set_dropD)
  have "\<forall>i \<in> set ?sel. replicate (length cs) (0::real) ! i = 0"
    using sub by simp
  then have same: "sort_reverse (\<lambda>i. replicate (length cs) (0::real) ! i) ?sel = ?sel"
    by (rule sort_reverse_equal_keys)
  have q: "query p ?s q top_k = Inr (map (result_dict (replicate (length cs) 0) path cs) ?sel)"
    using query_selected [OF st(2) _ _ part] assms(4,5)
    by (simp add: st(3) sc same process_path)
  have l: "length ?sel = nat top_k" using len assms(4,5) by simp
  have z: "\<forall>i \<in> set ?sel. map_of (result_dict (replicate (length cs) 0) path cs i)
              ''similarity score'' = Some (Float 0)"
    using sub by (simp add: result_dict_def)
  from q l sub z show ?thesis by blast
qed

text \<open>Witness: the query \<open>bird\<close> with \<open>top_k = 2\<close> on the corpus \<open>pets\<close>.\<close>

theorem query_unmatched_scores_zero_witness:
  "load_chunks (loader_of pets) ''pets.txt'' ''chunk_by_title'' [] = Inr pets
   \<and> pets \<noteq> [] \<and> (1::int) \<le> 2 \<and> 2 \<le> int (length pets)
   \<and> partitioned (scores_of (snd (process (loader_of pets) init ''pets.txt'' ''chunk_by_title'' [])) ''bird'')
        (kth_pos (length pets) (- 2)) [0, 1, 2]
   \<and> query [0, 1, 2] (snd (process (loader_of pets) init ''pets.txt'' ''chunk_by_title'' [])) ''bird'' 2
       = Inr (map (result_dict [0, 0, 0] ''pets.txt'' pets) [1, 2])"
proof -
  have h1: "load_chunks (loader_of pets) ''pets.txt'' ''chunk_by_title'' [] = Inr pets"
    by (rule load_loader_of)
  have h2: "pets \<noteq> []" by (simp add: pets_eq)
  have h3: "(1::int) \<le> 2" by simp
  have h4: "2 \<le> int (length pets)" by (simp add: length_pets)
  have sc: "scores_of (snd (process (loader_of pets) init ''pets.txt'' ''chunk_by_title'' [])) ''bird''
              = [0, 0, 0]"
    using scores_unmatched [OF h1 h2 unmatched_bird, of init]
    by (simp add: length_pets eval_nat_numeral)
  have h5: "partitioned (scores_of (snd (process (loader_of pets) init ''pets.txt'' ''chunk_by_title'' [])) ''bird'')
        (kth_pos (length pets) (- 2)) [0, 1, 2]"
    by (simp add: sc length_pets kth_pos_def partitioned_def eval_nat_numeral)
  show ?thesis
    using h1 h2 h4 h5
      query_unmatched_scores_zero [OF h1 h2 unmatched_bird h3 h4 h5, THEN conjunct1]
    by (simp add: length_pets eval_nat_numeral)
qed

text \<open>
  If an index of an empty corpus existed, \<open>query\<close> would still not return the empty list:
  \<open>np.argpartition\<close> of an empty score array raises for every positive \<open>top_k\<close>.
\<close>

theorem query_empty_index:
  assumes "bm25 self = Some m" and "corpus_size m = 0" and "0 < top_k"
  shows "query p self q top_k = Inl (ValueError ''kth out of bounds'')"
proof -
  have "length (get_scores m (processed_query q)) \<le> 0"
    using length_fold_scores_le [of m "processed_query q" "replicate (corpus_size m) 0"] assms(2)
    by (simp add: get_scores_def)
  then have "scores_of self q = []" using assms(1) by (simp add: scores_of_def)
  then show ?thesis
    using assms(1,3) by (simp add: query_unfold argpartition_def)
qed

text \<open>Witness: an object whose index has corpus size 0, queried with \<open>top_k = 1\<close>.\<close>

theorem query_empty_index_witness:
  "bm25 (\<lparr>bm25 = Some \<lparr>corpus_size = 0, avgdl = 0, doc_freqs = [], idf = [], doc_len = []\<rparr>,
          content_input_path = ''empty.txt'', chunks = []\<rparr> :: nat retriever)
     = Some \<lparr>corpus_size = 0, avgdl = 0, doc_freqs = [], idf = [], doc_len = []\<rparr>
   \<and> corpus_size \<lparr>corpus_size = 0, avgdl = 0, doc_freqs = [], idf = [], doc_len = []\<rparr> = 0
   \<and> (0::int) < 1
   \<and> query [] (\<lparr>bm25 = Some \<lparr>corpus_size = 0, avgdl = 0, doc_freqs = [], idf = [], doc_len = []\<rparr>,
          content_input_path = ''empty.txt'', chunks = []\<rparr> :: nat retriever) ''cat'' 1
       = Inl (ValueError ''kth out of bounds'')"
  using query_empty_index [of "\<lparr>bm25 = Some \<lparr>corpus_size = 0, avgdl = 0, doc_freqs = [], idf = [], doc_len = []\<rparr>,
          content_input_path = ''empty.txt'', chunks = []\<rparr> :: nat retriever"
      "\<lparr>corpus_size = 0, avgdl = 0, doc_freqs = [], idf = [], doc_len = []\<rparr>" 1 "[]" "''cat''"]
  by simp

text \<open>
  Claim C7, as amended. When a call of \<open>process\<close> fails, the index \<open>bm25\<close> is the one from
  before the call, and the content path is the path of the failed call (it is assigned
  first, on line 74). When the failure is the loader's, the loader's error is the one
  raised and the chunks are the ones from before the call as well.
\<close>

theorem process_failure_state:
  assumes "fst (process io self path chunk_type kw) = Inl e"
  shows "bm25 (snd (process io self path chunk_type kw)) = bm25 self
       \<and> content_input_path (snd (process io self path chunk_type kw)) = path
       \<and> (isl (load_chunks io path chunk_type kw) \<longrightarrow>
            load_chunks io path chunk_type kw = Inl e
            \<and> chunks (snd (process io self path chunk_type kw)) = chunks self)"
  using assms by (auto simp: process_def Let_def split: sum.splits)

text \<open>
  Witness for C7: the corpus \<open>pets\<close> is ingested, then a second call fails in the loader.
\<close>

theorem process_failure_state_witness:
  "fst (process failing_loader
          (snd (process (loader_of pets) init ''pets.txt'' ''chunk_by_title'' []))
          ''birds.txt'' ''chunk_by_title'' []) = Inl (LoaderError ''cannot fetch'')
   \<and> isl (load_chunks (failing_loader :: (unit, nat) UnstructuredIO) ''birds.txt'' ''chunk_by_title'' [])
   \<and> bm25 (snd (process failing_loader
          (snd (process (loader_of pets) init ''pets.txt'' ''chunk_by_title'' []))
          ''birds.txt'' ''chunk_by_title'' []))
       = bm25 (snd (process (loader_of pets) init ''pets.txt'' ''chunk_by_title'' []))
   \<and> chunks (snd (process failing_loader
          (snd (process (loader_of pets) init ''pets.txt'' ''chunk_by_title'' []))
          ''birds.txt'' ''chunk_by_title'' [])) = pets"
proof -
  let ?s = "snd (process (loader_of pets) init ''pets.txt'' ''chunk_by_title'' [])"
  have h: "fst (process failing_loader ?s ''birds.txt'' ''chunk_by_title'' [])
             = Inl (LoaderError ''cannot fetch'')"
    by (simp add: process_not_loaded [OF load_failing_loader])
  have l: "isl (load_chunks (failing_loader :: (unit, nat) UnstructuredIO)
                  ''birds.txt'' ''chunk_by_title'' [])"
    by (simp add: load_failing_loader)
  have c: "chunks ?s = pets"
    using process_pets [of init "''pets.txt''" "''chunk_by_title''" "[]"] by auto
  show ?thesis
    using h l c process_failure_state [OF h] by simp
qed

text \<open>
  Counterexample to C7 as stated: after the index of \<open>pets\<close> was built, a call of
  \<open>process\<close> whose loader raises changes the content path from \<open>pets.txt\<close> to
  \<open>birds.txt\<close>, so the object is not as it was before the failed call.
\<close>

theorem process_not_atomic_counterexample:
  "bm25 (snd (process (loader_of pets) init ''pets.txt'' ''chunk_by_title'' [])) \<noteq> None
   \<and> fst (process failing_loader
          (snd (process (loader_of pets) init ''pets.txt'' ''chunk_by_title'' []))
          ''birds.txt'' ''chunk_by_title'' []) = Inl (LoaderError ''cannot fetch'')
   \<and> content_input_path (snd (process (loader_of pets) init ''pets.txt'' ''chunk_by_title'' []))
        = ''pets.txt''
   \<and> content_input_path (snd (process failing_loader
          (snd (process (loader_of pets) init ''pets.txt'' ''chunk_by_title'' []))
          ''birds.txt'' ''chunk_by_title'' [])) = ''birds.txt''
   \<and> snd (process failing_loader
          (snd (process (loader_of pets) init ''pets.txt'' ''chunk_by_title'' []))
          ''birds.txt'' ''chunk_by_title'' [])
        \<noteq> snd (process (loader_of pets) init ''pets.txt'' ''chunk_by_title'' [])"
proof -
  let ?s = "snd (process (loader_of pets) init ''pets.txt'' ''chunk_by_title'' [])"
  let ?t = "snd (process failing_loader ?s ''birds.txt'' ''chunk_by_title'' [])"
  have b: "bm25 ?s \<noteq> None"
    using process_pets [of init "''pets.txt''" "''chunk_by_title''" "[]"] by auto
  have f: "fst (process failing_loader ?s ''birds.txt'' ''chunk_by_title'' [])
             = Inl (LoaderError ''cannot fetch'')"
    by (simp add: process_not_loaded [OF load_failing_loader])
  have p1: "content_input_path ?s = ''pets.txt''" by (rule process_path)
  have p2: "content_input_path ?t = ''birds.txt''" by (rule process_path)
  have "?t \<noteq> ?s"
  proof
    assume "?t = ?s"
    then have "content_input_path ?t = content_input_path ?s" by simp
    with p1 p2 show False by simp
  qed
  with b f p1 p2 show ?thesis by blast
qed

text \<open>
  Claim C8, as amended. Documents and queries are tokenised by the same function,
  \<open>split(" ")\<close>, which cuts at every single space character and at nothing else: joining
  the tokens with a space gives the text back, there is one token more than there are
  spaces, and no token contains a space.
\<close>

theorem tokenization_consistent:
  "tokenized_corpus cs = map (\<lambda>chunk. processed_query (chunk_str chunk)) cs
   \<and> str_join CHR '' '' (processed_query s) = s
   \<and> length (processed_query s) = Suc (count_list s CHR '' '')
   \<and> (\<forall>t \<in> set (processed_query s). CHR '' '' \<notin> set t)"
  by (simp add: tokenized_corpus_def processed_query_def str_join_str_split length_str_split
      sep_notin_str_split)

text \<open>Witness for C8: the text \<open>the cat sat\<close> as a chunk and as a query.\<close>

theorem tokenization_consistent_witness:
  "tokenized_corpus [\<lparr>chunk_str = ''the cat sat'', chunk_metadata = ()\<rparr>]
     = [processed_query ''the cat sat'']
   \<and> processed_query ''the cat sat'' = [''the'', ''cat'', ''sat'']
   \<and> str_join CHR '' '' (processed_query ''the cat sat'') = ''the cat sat''"
  using tokenization_consistent [of "[\<lparr>chunk_str = ''the cat sat'', chunk_metadata = ()\<rparr>]" "''the cat sat''"]
  by (simp add: processed_query_def)

text \<open>
  Counterexample to C8 as stated: a tab is whitespace, and the text \<open>a<TAB>b\<close> stays one
  token; two spaces in a row give an empty token. So the tokens of the code may contain
  whitespace, which no split on whitespace allows.
\<close>

theorem split_on_whitespace_counterexample:
  "isspace (CHR 0x09)
   \<and> processed_query [CHR ''a'', CHR 0x09, CHR ''b''] = [[CHR ''a'', CHR 0x09, CHR ''b'']]
   \<and> processed_query ''a  b'' = [''a'', [], ''b'']
   \<and> \<not> (\<forall>s. \<forall>t \<in> set (processed_query s). \<forall>c \<in> set t. \<not> isspace c)"
proof -
  have a: "isspace (CHR 0x09)" by (simp add: isspace_def)
  have b: "processed_query [CHR ''a'', CHR 0x09, CHR ''b''] = [[CHR ''a'', CHR 0x09, CHR ''b'']]"
    by (simp add: processed_query_def)
  have c: "processed_query ''a  b'' = [''a'', [], ''b'']"
    by (simp add: processed_query_def)
  have d: "\<not> (\<forall>s. \<forall>t \<in> set (processed_query s). \<forall>c \<in> set t. \<not> isspace c)"
  proof
    assume "\<forall>s. \<forall>t \<in> set (processed_query s). \<forall>c \<in> set t. \<not> isspace c"
    then have "\<forall>t \<in> set (processed_query [CHR ''a'', CHR 0x09, CHR ''b'']).
                 \<forall>c \<in> set t. \<not> isspace c"
      by blast
    then have "\<not> isspace (CHR 0x09)" by (simp add: b)
    with a show False by simp
  qed
  from a b c d show ?thesis by blast
qed

text \<open>
  Claim C9. Calling \<open>process\<close> a second time on the same path, with a loader that returns
  the same corpus, leaves the object exactly as the first call left it; so every query
  computes the same scores and returns the same results after two calls as after one.
\<close>

theorem process_idempotent:
  assumes "load_chunks io' path chunk_type' kw' = load_chunks io path chunk_type kw"
  shows "snd (process io' (snd (process io self path chunk_type kw)) path chunk_type' kw')
           = snd (process io self path chunk_type kw)
       \<and> scores_of (snd (process io' (snd (process io self path chunk_type kw)) path chunk_type' kw')) q
           = scores_of (snd (process io self path chunk_type kw)) q
       \<and> query p (snd (process io' (snd (process io self path chunk_type kw)) path chunk_type' kw')) q top_k
           = query p (snd (process io self path chunk_type kw)) q top_k"
  using process_twice [OF assms] by simp

text \<open>Witness for C9: the corpus \<open>pets\<close> ingested once and twice.\<close>

theorem process_idempotent_witness:
  "load_chunks (loader_of pets) ''pets.txt'' ''basic'' [(''strategy'', ''fast'')]
     = load_chunks (loader_of pets) ''pets.txt'' ''chunk_by_title'' []
   \<and> snd (process (loader_of pets)
            (snd (process (loader_of pets) init ''pets.txt'' ''chunk_by_title'' []))
            ''pets.txt'' ''basic'' [(''strategy'', ''fast'')])
       = snd (process (loader_of pets) init ''pets.txt'' ''chunk_by_title'' [])
   \<and> query [1, 2, 0]
        (snd (process (loader_of pets)
            (snd (process (loader_of pets) init ''pets.txt'' ''chunk_by_title'' []))
            ''pets.txt'' ''basic'' [(''strategy'', ''fast'')])) ''cat'' 2
       = query [1, 2, 0] (snd (process (loader_of pets) init ''pets.txt'' ''chunk_by_title'' [])) ''cat'' 2"
proof -
  have h: "load_chunks (loader_of pets) ''pets.txt'' ''basic'' [(''strategy'', ''fast'')]
     = load_chunks (loader_of pets) ''pets.txt'' ''chunk_by_title'' []"
    by (simp add: load_loader_of)
  show ?thesis
    using h process_idempotent [OF h, of init "''cat''" "[1, 2, 0]" 2] by simp
qed

text \<open>
  Claim C10. Every result of a successful query is a dictionary with exactly the keys
  \<open>similarity score\<close>, \<open>content path\<close>, \<open>metadata\<close> and \<open>text\<close>, and its content path
  is the path given to the most recent call of \<open>process\<close>.
\<close>

theorem query_result_keys:
  assumes "query p (snd (process io self path chunk_type kw)) q top_k = Inr rs"
    and "r \<in> set rs"
  shows "map fst r = [''similarity score'', ''content path'', ''metadata'', ''text'']
       \<and> map_of r ''content path'' = Some (Str path)"
proof -
  from query_Inr_results [OF assms] obtain i where
    "r = result_dict (scores_of (snd (process io self path chunk_type kw)) q) path
           (chunks (snd (process io self path chunk_type kw))) i"
    by (auto simp: process_path)
  then show ?thesis by (simp add: result_dict_def)
qed

text \<open>Witness for C10: the first result of the query \<open>cat\<close> on the corpus \<open>pets\<close>.\<close>

theorem query_result_keys_witness:
  "query [1, 2, 0] (snd (process (loader_of pets) init ''pets.txt'' ''chunk_by_title'' [])) ''cat'' 2
     = Inr (map (result_dict [raw_idf 3 1, 0, 0] ''pets.txt'' pets) [0, 2])
   \<and> result_dict [raw_idf 3 1, 0, 0] ''pets.txt'' pets 0
        \<in> set (map (result_dict [raw_idf 3 1, 0, 0] ''pets.txt'' pets) [0, 2])
   \<and> map fst (result_dict [raw_idf 3 1, 0, 0] ''pets.txt'' pets 0)
        = [''similarity score'', ''content path'', ''metadata'', ''text'']
   \<and> map_of (result_dict [raw_idf 3 1, 0, 0] ''pets.txt'' pets 0) ''content path''
        = Some (Str ''pets.txt'')
   \<and> map_of (result_dict [raw_idf 3 1, 0, 0] ''pets.txt'' pets 0) ''text''
        = Some (Str ''the cat sat'')"
proof -
  have h1: "query [1, 2, 0] (snd (process (loader_of pets) init ''pets.txt'' ''chunk_by_title'' [])) ''cat'' 2
     = Inr (map (result_dict [raw_idf 3 1, 0, 0] ''pets.txt'' pets) [0, 2])"
    by (rule query_pets_cat)
  have h2: "result_dict [raw_idf 3 1, 0, 0] ''pets.txt'' pets 0
        \<in> set (map (result_dict [raw_idf 3 1, 0, 0] ''pets.txt'' pets) [0, 2])"
    by simp
  have t: "map_of (result_dict [raw_idf 3 1, 0, 0] ''pets.txt'' pets 0) ''text''
        = Some (Str ''the cat sat'')"
    by (simp add: result_dict_def pets_eq)
  show ?thesis
    using h1 h2 t query_result_keys [OF h1 h2] by simp
qed

end
